theory Spec2Isabelle
  imports Main
begin

section \<open>The values that cross the call boundary\<close>

text \<open>
  The wrapper \<open>invoke_and_log\<close> receives whatever the backend call settles with, typed
  \<open>any\<close> in the source. The values are the ones that can cross the process boundary
  (null, booleans, numbers, strings, arrays, plain objects) and \<open>undefined\<close>.

  The wrapper never computes with a number: it can only test it for truthiness and render
  it inside a template literal. A number is therefore carried as these two observations
  (for 42: truthy, rendered \<open>42\<close>; for 0: falsy, rendered \<open>0\<close>; for NaN: falsy,
  rendered \<open>NaN\<close>), which keeps floating point out of the model.

  A plain object is the list of its own properties; an \<open>Error\<close> instance counts as an
  object with the properties \<open>name\<close> and \<open>message\<close>.
\<close>

datatype jsnumber = Num (num_truthy: bool) (num_text: string)

datatype jsval =
    JUndefined
  | JNull
  | JBool bool
  | JNum jsnumber
  | JStr string
  | JArr "jsval list"
  | JObj "(string \<times> jsval) list"

text \<open>What a JavaScript expression can throw: a \<open>TypeError\<close> of the engine, or any value.\<close>

datatype js_error = TypeError | Thrown jsval

text \<open>
  The property reads \<open>e.name\<close> and \<open>e.message\<close>. Reading a property of \<open>undefined\<close> or
  \<open>null\<close> throws a \<open>TypeError\<close>. No prototype of a boolean, a number, a string, an array
  or a plain object defines \<open>name\<close> or \<open>message\<close>, so there the read gives the own property
  or \<open>undefined\<close>. (The function is used with these two keys only.)
\<close>

fun get_property :: "jsval \<Rightarrow> string \<Rightarrow> js_error + jsval" where
  "get_property JUndefined k = Inl TypeError"
| "get_property JNull k = Inl TypeError"
| "get_property (JObj kvs) k =
     (case map_of kvs k of None \<Rightarrow> Inr JUndefined | Some v \<Rightarrow> Inr v)"
| "get_property v k = Inr JUndefined"

text \<open>Truthiness, as the condition of an \<open>if\<close> and the operands of \<open>&&\<close> test it.\<close>

fun truthy :: "jsval \<Rightarrow> bool" where
  "truthy JUndefined = False"
| "truthy JNull = False"
| "truthy (JBool b) = b"
| "truthy (JNum n) = num_truthy n"
| "truthy (JStr s) = (s \<noteq> [])"
| "truthy (JArr xs) = True"
| "truthy (JObj kvs) = True"

text \<open>\<open>typeof e === "string"\<close>\<close>

fun is_string :: "jsval \<Rightarrow> bool" where
  "is_string (JStr s) = True"
| "is_string v = False"

text \<open>
  The conversion to a string that a template literal applies to each \<open>${...}\<close>. An array
  joins its elements with commas, \<open>null\<close> and \<open>undefined\<close> elements rendered empty. A plain
  object renders as \<open>[object Object]\<close> through the inherited \<open>toString\<close>; an own property
  \<open>toString\<close> of a value that crossed the boundary is never callable and shadows it, and
  the conversion throws a \<open>TypeError\<close>.
\<close>

fun to_string :: "jsval \<Rightarrow> js_error + string"
  and join_elements :: "jsval list \<Rightarrow> js_error + string" where
  "to_string JUndefined = Inr ''undefined''"
| "to_string JNull = Inr ''null''"
| "to_string (JBool b) = Inr (if b then ''true'' else ''false'')"
| "to_string (JNum n) = Inr (num_text n)"
| "to_string (JStr s) = Inr s"
| "to_string (JArr xs) = join_elements xs"
| "to_string (JObj kvs) =
     (case map_of kvs ''toString'' of
        None \<Rightarrow> Inr ''[object Object]''
      | Some v \<Rightarrow> Inl TypeError)"
| "join_elements [] = Inr ''''"
| "join_elements (x # xs) =
     (case (if x = JUndefined \<or> x = JNull then Inr '''' else to_string x) of
        Inl err \<Rightarrow> Inl err
      | Inr s \<Rightarrow>
          (if xs = [] then Inr s
           else (case join_elements xs of
                   Inl err \<Rightarrow> Inl err
                 | Inr rest \<Rightarrow> Inr (s @ '','' @ rest))))"

section \<open>The collaborators of the wrapper\<close>

text \<open>
  The notification store and the two log channels are process-wide; the state threaded
  through the model holds what each has received, oldest first. The wrapper's module
  has no variable of its own, so this is all the state there is.
\<close>

record world =
  toasts :: "(jsval \<times> string) list"
  error_log :: "string list"
  exception_log :: "(string \<times> jsval) list"

text \<open>
  Modelled from the spec: \<open>toastStore.makeToast\<close> of the module \<open>ToastStore\<close>, which is
  not among the sources. The notification sink accepts a message and a severity level
  and displays it to the user.
\<close>

definition makeToast :: "jsval \<Rightarrow> string \<Rightarrow> world \<Rightarrow> world" where
  "makeToast msg level w = w\<lparr>toasts := toasts w @ [(msg, level)]\<rparr>"

text \<open>
  Modelled from the spec: \<open>errorLog\<close> of the module \<open>logging\<close>, which is not among the
  sources. The plain-message error channel accepts a formatted string.
\<close>

definition errorLog :: "string \<Rightarrow> world \<Rightarrow> world" where
  "errorLog line w = w\<lparr>error_log := error_log w @ [line]\<rparr>"

text \<open>
  Modelled from the spec: \<open>exceptionLog\<close> of the module \<open>logging\<close>, which is not among
  the sources. The exception channel accepts a label plus an arbitrary value.
\<close>

definition exceptionLog :: "string \<Rightarrow> jsval \<Rightarrow> world \<Rightarrow> world" where
  "exceptionLog label v w = w\<lparr>exception_log := exception_log w @ [(label, v)]\<rparr>"

text \<open>
  The backend call \<open>invoke(method, args)\<close> of the host environment is a parameter: given
  the method name and the argument mapping (\<open>None\<close> when the caller omits it), the promise
  it returns either resolves with a value or rejects with a failure value.
\<close>

datatype outcome = Resolve jsval | Reject jsval

type_synonym invoke_args = "(string \<times> jsval) list"

type_synonym backend = "string \<Rightarrow> invoke_args option \<Rightarrow> outcome"

section \<open>The wrapper\<close>

text \<open>
  \<open>invoke_and_log(method, handle, args)\<close>. The result is what the returned promise settles
  with: \<open>Inr\<close> the value it resolves with, \<open>Inl\<close> what it rejects with. The fallback
  producer \<open>handle\<close> is a function of the failure value that returns or throws.

  In the condition \<open>e.name && e.message\<close> the read of \<open>e.name\<close> comes first and throws for
  \<open>undefined\<close> and \<open>null\<close>; once it has succeeded the read of \<open>e.message\<close> cannot throw and
  has no effect, so the model reads it at once. In the first branch the notification is
  made before the template literal converts \<open>e.name\<close> and then \<open>e.message\<close>.
\<close>

definition invoke_and_log ::
  "backend \<Rightarrow> string \<Rightarrow> (jsval \<Rightarrow> js_error + jsval) \<Rightarrow> invoke_args option \<Rightarrow> world
     \<Rightarrow> (js_error + jsval) \<times> world" where
  "invoke_and_log invoke method handle args w =
     (case invoke method args of
        Resolve v \<Rightarrow> (Inr v, w)
      | Reject e \<Rightarrow>
          (case get_property e ''name'' of
             Inl err \<Rightarrow> (Inl err, w)
           | Inr name \<Rightarrow>
               (case get_property e ''message'' of
                  Inl err \<Rightarrow> (Inl err, w)
                | Inr message \<Rightarrow>
                    (if truthy name \<and> truthy message then
                       (let w1 = makeToast message ''error'' w in
                        case to_string name of
                          Inl err \<Rightarrow> (Inl err, w1)
                        | Inr n \<Rightarrow>
                            (case to_string message of
                               Inl err \<Rightarrow> (Inl err, w1)
                             | Inr m \<Rightarrow>
                                 (handle e,
                                  errorLog (''Error invoking '' @ method @ '': ('' @ n @ '') '' @ m) w1)))
                     else if is_string e then
                       (let w1 = makeToast e ''error'' w in
                        case to_string e of
                          Inl err \<Rightarrow> (Inl err, w1)
                        | Inr s \<Rightarrow>
                            (handle e, errorLog (''Error invoking '' @ method @ '': '' @ s) w1))
                     else
                       (handle e, exceptionLog (''Error invoking '' @ method) e w)))))"

section \<open>The exposed operations\<close>

text \<open>\<open>VersionFolders = null | "official" | "unofficial" | "devel"\<close>\<close>

datatype VersionFolders = NoFolder | Official | Unofficial | Devel

fun folder_value :: "VersionFolders \<Rightarrow> jsval" where
  "folder_value NoFolder = JNull"
| "folder_value Official = JStr ''official''"
| "folder_value Unofficial = JStr ''unofficial''"
| "folder_value Devel = JStr ''devel''"

text \<open>\<open>success !== false\<close>: only the boolean \<open>false\<close> is strictly equal to \<open>false\<close>.\<close>

definition not_false :: "jsval \<Rightarrow> bool" where
  "not_false v = (v \<noteq> JBool False)"

definition listDownloadedVersions ::
  "backend \<Rightarrow> VersionFolders \<Rightarrow> world \<Rightarrow> (js_error + jsval) \<times> world" where
  "listDownloadedVersions invoke folder w =
     invoke_and_log invoke ''list_downloaded_versions'' (\<lambda>e. Inr (JArr []))
       (Some [(''versionFolder'', folder_value folder)]) w"

definition downloadOfficialVersion ::
  "backend \<Rightarrow> string \<Rightarrow> string \<Rightarrow> world \<Rightarrow> (js_error + bool) \<times> world" where
  "downloadOfficialVersion invoke version url w =
     (case invoke_and_log invoke ''download_version'' (\<lambda>e. Inr (JBool False))
             (Some [(''version'', JStr version),
                    (''versionFolder'', JStr ''official''),
                    (''url'', JStr url)]) w of
        (Inl err, w') \<Rightarrow> (Inl err, w')
      | (Inr success, w') \<Rightarrow> (Inr (not_false success), w'))"

definition removeVersion ::
  "backend \<Rightarrow> string \<Rightarrow> string \<Rightarrow> world \<Rightarrow> (js_error + bool) \<times> world" where
  "removeVersion invoke version versionFolder w =
     (case invoke_and_log invoke ''remove_version'' (\<lambda>e. Inr (JBool False))
             (Some [(''version'', JStr version),
                    (''versionFolder'', JStr versionFolder)]) w of
        (Inl err, w') \<Rightarrow> (Inl err, w')
      | (Inr success, w') \<Rightarrow> (Inr (not_false success), w'))"

definition openVersionFolder ::
  "backend \<Rightarrow> VersionFolders \<Rightarrow> world \<Rightarrow> (js_error + jsval) \<times> world" where
  "openVersionFolder invoke folder w =
     invoke_and_log invoke ''open_version_folder'' (\<lambda>e. Inr JUndefined)
       (Some [(''versionFolder'', folder_value folder)]) w"

definition getActiveVersion :: "backend \<Rightarrow> world \<Rightarrow> (js_error + jsval) \<times> world" where
  "getActiveVersion invoke w =
     invoke_and_log invoke ''get_active_tooling_version'' (\<lambda>e. Inr JNull) None w"

definition getActiveVersionFolder :: "backend \<Rightarrow> world \<Rightarrow> (js_error + jsval) \<times> world" where
  "getActiveVersionFolder invoke w =
     invoke_and_log invoke ''get_active_tooling_version_folder'' (\<lambda>e. Inr JNull) None w"

definition ensureActiveVersionStillExists ::
  "backend \<Rightarrow> world \<Rightarrow> (js_error + jsval) \<times> world" where
  "ensureActiveVersionStillExists invoke w =
     invoke_and_log invoke ''ensure_active_version_still_exists'' (\<lambda>e. Inr (JBool False)) None w"

text \<open>The state before anything was shown or logged.\<close>

definition empty_world :: world where
  "empty_world = \<lparr>toasts = [], error_log = [], exception_log = []\<rparr>"

section \<open>General facts about the wrapper\<close>

text \<open>
  A failure whose \<open>name\<close> and \<open>message\<close> can be read, are not both truthy, and which is not
  a string goes to the exception channel only.
\<close>

lemma invoke_and_log_opaque:
  assumes "invoke method args = Reject e"
    and "get_property e ''name'' = Inr n"
    and "get_property e ''message'' = Inr m"
    and "\<not> (truthy n \<and> truthy m)"
    and "\<not> is_string e"
  shows "invoke_and_log invoke method handle args w =
           (handle e, exceptionLog (''Error invoking '' @ method) e w)"
  using assms by (auto simp add: invoke_and_log_def)

text \<open>The conversion to a string throws nothing but a \<open>TypeError\<close>.\<close>

lemma to_string_error:
  "to_string v = Inl err \<Longrightarrow> err = TypeError"
  "join_elements vs = Inl err \<Longrightarrow> err = TypeError"
  by (induction v and vs rule: to_string_join_elements.induct)
     (auto split: option.splits sum.splits if_splits)

text \<open>On a failure the wrapper settles with the fallback producer's result or with a
  \<open>TypeError\<close> of its own handler.\<close>

lemma invoke_and_log_failure_cases:
  assumes "invoke method args = Reject e"
  shows "fst (invoke_and_log invoke method handle args w) = handle e
       \<or> fst (invoke_and_log invoke method handle args w) = Inl TypeError"
proof (cases "get_property e ''name''")
  case (Inl err)
  then have "err = TypeError"
    by (cases e) (auto split: option.splits)
  with Inl assms show ?thesis
    by (simp add: invoke_and_log_def)
next
  case (Inr n)
  then have "\<exists>m. get_property e ''message'' = Inr m"
    by (cases e) (simp_all split: option.splits)
  then obtain m where m: "get_property e ''message'' = Inr m" ..
  from assms Inr m show ?thesis
    by (auto simp add: invoke_and_log_def Let_def split: sum.splits
        dest: to_string_error(1))
qed

text \<open>
  The scenario of a rejection with the opaque value 42: \<open>listDownloadedVersions\<close> returns
  the empty sequence, shows nothing and records the value on the exception channel.
\<close>

lemma listDownloadedVersions_rejects_42:
  "listDownloadedVersions (\<lambda>m a. Reject (JNum (Num True ''42''))) folder w =
     (Inr (JArr []),
      w\<lparr>exception_log := exception_log w @
          [(''Error invoking list_downloaded_versions'', JNum (Num True ''42''))]\<rparr>)"
  by (simp add: listDownloadedVersions_def invoke_and_log_def exceptionLog_def)

text \<open>
  \<open>downloadOfficialVersion\<close> calls \<open>download_version\<close> with the three arguments and
  reports success exactly when that call resolves with a value other than \<open>false\<close>.
\<close>

lemma downloadOfficialVersion_true_iff:
  "fst (downloadOfficialVersion invoke version url w) = Inr True
   \<longleftrightarrow> (\<exists>v. invoke ''download_version''
              (Some [(''version'', JStr version), (''versionFolder'', JStr ''official''),
                     (''url'', JStr url)]) = Resolve v \<and> v \<noteq> JBool False)"
  by (auto simp add: downloadOfficialVersion_def invoke_and_log_def not_false_def Let_def
      split: outcome.splits sum.splits prod.splits if_splits)

section \<open>The claims\<close>

subsection \<open>C1: no failure leaves the wrapper\<close>

text \<open>
  Claim C1: for every method name, fallback producer, argument mapping and backend
  outcome, a failure with \<open>null\<close> or \<open>undefined\<close> included, \<open>invoke_and_log\<close> returns a
  value to its caller and raises nothing past its own boundary.

  The code does not do this when the backend rejects with \<open>null\<close> or \<open>undefined\<close>: the
  handler's first test reads \<open>e.name\<close>, the read throws a \<open>TypeError\<close> inside the
  \<open>catch\<close> block, and the wrapper's promise rejects with it. Nothing is shown or logged
  and the fallback producer is never called.
\<close>

theorem invoke_and_log_null_failure_raises:
  "invoke_and_log (\<lambda>m a. Reject JNull) method handle args w = (Inl TypeError, w)
   \<and> invoke_and_log (\<lambda>m a. Reject JUndefined) method handle args w = (Inl TypeError, w)"
  by (simp add: invoke_and_log_def)

subsection \<open>C2: structured failures\<close>

text \<open>
  Claim C2, as stated: for every failure value that has both a \<open>name\<close> and a \<open>message\<close>
  string field, exactly one error notification with the message and exactly one error-log
  line \<open>Error invoking <method>: (<name>) <message>\<close> are emitted, and the fallback
  producer's result is returned.

  It fails for an empty string: the test \<open>e.name && e.message\<close> is a test of truthiness,
  and the failure \<open>{name: "", message: "boom"}\<close> is handled as an opaque one, with no
  notification and no error-log line.
\<close>

theorem invoke_and_log_empty_name_counterexample:
  "invoke_and_log
     (\<lambda>m a. Reject (JObj [(''name'', JStr []), (''message'', JStr ''boom'')]))
     ''remove_version'' (\<lambda>e. Inr (JBool False)) None empty_world
   = (Inr (JBool False),
      \<lparr>toasts = [], error_log = [],
       exception_log = [(''Error invoking remove_version'',
                         JObj [(''name'', JStr []), (''message'', JStr ''boom'')])]\<rparr>)
   \<and> toasts (snd (invoke_and_log
         (\<lambda>m a. Reject (JObj [(''name'', JStr []), (''message'', JStr ''boom'')]))
         ''remove_version'' (\<lambda>e. Inr (JBool False)) None empty_world))
       \<noteq> [(JStr ''boom'', ''error'')]"
  by (simp add: invoke_and_log_def exceptionLog_def empty_world_def)

text \<open>
  Claim C2, amended: for every method name and every failure value whose \<open>name\<close> and
  \<open>message\<close> fields are both non-empty strings, \<open>invoke_and_log\<close> emits exactly one
  error-severity notification whose text is the message and exactly one error-log line
  \<open>Error invoking <method>: (<name>) <message>\<close>, writes nothing to the exception
  channel, and returns the fallback producer's result applied to the failure value.
\<close>

theorem invoke_and_log_structured:
  assumes "invoke method args = Reject (JObj kvs)"
    and "map_of kvs ''name'' = Some (JStr n)"
    and "map_of kvs ''message'' = Some (JStr m)"
    and "n \<noteq> []" and "m \<noteq> []"
  shows "invoke_and_log invoke method handle args w =
           (handle (JObj kvs),
            w\<lparr>toasts := toasts w @ [(JStr m, ''error'')],
              error_log := error_log w @
                [''Error invoking '' @ method @ '': ('' @ n @ '') '' @ m]\<rparr>)"
  using assms by (simp add: invoke_and_log_def makeToast_def errorLog_def)

text \<open>
  The scenario of the specification: \<open>get_active_tooling_version\<close> rejects with
  \<open>{name: "IOError", message: "not found"}\<close>.
\<close>

theorem invoke_and_log_structured_witness:
  "map_of [(''name'', JStr ''IOError''), (''message'', JStr ''not found'')] ''name''
     = Some (JStr ''IOError'')
   \<and> map_of [(''name'', JStr ''IOError''), (''message'', JStr ''not found'')] ''message''
     = Some (JStr ''not found'')
   \<and> invoke_and_log
       (\<lambda>m a. Reject (JObj [(''name'', JStr ''IOError''), (''message'', JStr ''not found'')]))
       ''get_active_tooling_version'' (\<lambda>e. Inr JNull) None empty_world
     = (Inr JNull,
        \<lparr>toasts = [(JStr ''not found'', ''error'')],
         error_log = [''Error invoking get_active_tooling_version: (IOError) not found''],
         exception_log = []\<rparr>)"
  using invoke_and_log_structured
    [of "\<lambda>m a. Reject (JObj [(''name'', JStr ''IOError''), (''message'', JStr ''not found'')])"
        "''get_active_tooling_version''"
        None
        "[(''name'', JStr ''IOError''), (''message'', JStr ''not found'')]"
        "''IOError''"
        "''not found''"
        "\<lambda>e. Inr JNull"
        empty_world]
  by (simp add: empty_world_def)

subsection \<open>C3: success\<close>

text \<open>
  Claim C3: for every method name, argument mapping and fallback producer, if the backend
  call resolves with a value \<open>v\<close>, \<open>invoke_and_log\<close> returns exactly \<open>v\<close> and leaves the
  notifications, the error log and the exception log as they were.
\<close>

theorem invoke_and_log_success:
  assumes "invoke method args = Resolve v"
  shows "invoke_and_log invoke method handle args w = (Inr v, w)"
  using assms by (simp add: invoke_and_log_def)

theorem invoke_and_log_success_witness:
  "invoke_and_log (\<lambda>m a. if m = ''get_active_tooling_version'' then Resolve (JStr ''v0.1.32'')
                          else Reject (JStr ''unknown command''))
     ''get_active_tooling_version'' (\<lambda>e. Inr JNull) None empty_world
   = (Inr (JStr ''v0.1.32''), empty_world)"
  using invoke_and_log_success
    [of "\<lambda>m a. if m = ''get_active_tooling_version'' then Resolve (JStr ''v0.1.32'') else Reject (JStr ''unknown command'')"
        "''get_active_tooling_version''"
        None
        "JStr ''v0.1.32''"
        "\<lambda>e. Inr JNull"
        empty_world]
  by simp

subsection \<open>C4: opaque failures\<close>

text \<open>
  Claim C4: for every failure value that is neither structured nor a string,
  \<open>invoke_and_log\<close> shows no notification and records exactly one exception-log entry
  tagged \<open>Error invoking <method>\<close> with the failure value; \<open>listDownloadedVersions\<close>
  rejected with 42 returns the empty sequence.

  The scenario with 42 holds (\<open>listDownloadedVersions_rejects_42\<close>). For the failure
  value \<open>null\<close>, which has neither shape, the code records no exception-log entry and
  returns no sequence: the read of \<open>e.name\<close> throws before any branch is taken.
\<close>

theorem listDownloadedVersions_null_failure:
  "listDownloadedVersions (\<lambda>m a. Reject JNull) folder w = (Inl TypeError, w)"
  by (simp add: listDownloadedVersions_def invoke_and_log_def)

subsection \<open>C5: string failures\<close>

text \<open>
  Claim C5: for every method name and every failure value that is a plain string \<open>s\<close>,
  \<open>invoke_and_log\<close> emits exactly one error-severity notification showing \<open>s\<close> and
  exactly one error-log line \<open>Error invoking <method>: <s>\<close>, and returns the fallback
  producer's result.
\<close>

theorem invoke_and_log_string:
  assumes "invoke method args = Reject (JStr s)"
  shows "invoke_and_log invoke method handle args w =
           (handle (JStr s),
            w\<lparr>toasts := toasts w @ [(JStr s, ''error'')],
              error_log := error_log w @ [''Error invoking '' @ method @ '': '' @ s]\<rparr>)"
  using assms by (simp add: invoke_and_log_def makeToast_def errorLog_def)

theorem invoke_and_log_string_witness:
  "invoke_and_log (\<lambda>m a. Reject (JStr ''no network'')) ''download_version''
     (\<lambda>e. Inr (JBool False)) None empty_world
   = (Inr (JBool False),
      \<lparr>toasts = [(JStr ''no network'', ''error'')],
       error_log = [''Error invoking download_version: no network''],
       exception_log = []\<rparr>)"
  using invoke_and_log_string
    [of "\<lambda>m a. Reject (JStr ''no network'')"
        "''download_version''"
        None
        "''no network''"
        "\<lambda>e. Inr (JBool False)"
        empty_world]
  by (simp add: empty_world_def)

subsection \<open>C6: exactly one of notification and exception-log entry\<close>

text \<open>
  Claim C6: on a failure exactly one of a user notification and an exception-log entry is
  emitted, never both and never neither, and a value is returned; on success nothing is
  emitted.

  When the backend rejects with \<open>undefined\<close> the code emits neither and returns no value:
  the notifications and the exception log are as before and the call ends in a
  \<open>TypeError\<close>.
\<close>

theorem invoke_and_log_undefined_emits_neither:
  "toasts (snd (invoke_and_log (\<lambda>m a. Reject JUndefined) method handle args w)) = toasts w
   \<and> exception_log (snd (invoke_and_log (\<lambda>m a. Reject JUndefined) method handle args w))
       = exception_log w
   \<and> fst (invoke_and_log (\<lambda>m a. Reject JUndefined) method handle args w) = Inl TypeError"
  by (simp add: invoke_and_log_def)

subsection \<open>C7: downloading an official version\<close>

text \<open>
  Claim C7: \<open>downloadOfficialVersion\<close> calls \<open>download_version\<close> with the arguments
  \<open>{version, versionFolder: "official", url}\<close>, returns true if and only if the backend
  resolves with a value other than \<open>false\<close>, and returns false on any backend failure.

  The call and the equivalence hold (\<open>downloadOfficialVersion_true_iff\<close>). When the
  backend rejects with \<open>null\<close> the operation does not return false: it ends in the
  \<open>TypeError\<close> of the wrapper's handler.
\<close>

theorem downloadOfficialVersion_null_failure:
  "downloadOfficialVersion (\<lambda>m a. Reject JNull) version url w = (Inl TypeError, w)"
  by (simp add: downloadOfficialVersion_def invoke_and_log_def)

subsection \<open>C8: two calls\<close>

text \<open>
  Claim C8: two invocations of \<open>invoke_and_log\<close> with identical inputs against a backend
  that resolves with the same value give two identical successes; the wrapper keeps no
  cache or state between the calls. The second call runs in the state the first one left:
  both return the backend's value and the state is the one before the first call.
\<close>

theorem invoke_and_log_twice:
  assumes "invoke method args = Resolve v"
  shows "fst (invoke_and_log invoke method handle args w) = Inr v
       \<and> fst (invoke_and_log invoke method handle args
                (snd (invoke_and_log invoke method handle args w))) = Inr v
       \<and> snd (invoke_and_log invoke method handle args
                (snd (invoke_and_log invoke method handle args w))) = w"
  using assms by (simp add: invoke_and_log_def)

theorem invoke_and_log_twice_witness:
  "fst (invoke_and_log (\<lambda>m a. Resolve (JArr [JStr ''v0.1.32'', JStr ''v0.1.33'']))
          ''list_downloaded_versions'' (\<lambda>e. Inr (JArr []))
          (Some [(''versionFolder'', JStr ''official'')]) empty_world)
     = Inr (JArr [JStr ''v0.1.32'', JStr ''v0.1.33''])
   \<and> invoke_and_log (\<lambda>m a. Resolve (JArr [JStr ''v0.1.32'', JStr ''v0.1.33'']))
        ''list_downloaded_versions'' (\<lambda>e. Inr (JArr []))
        (Some [(''versionFolder'', JStr ''official'')])
        (snd (invoke_and_log (\<lambda>m a. Resolve (JArr [JStr ''v0.1.32'', JStr ''v0.1.33'']))
                ''list_downloaded_versions'' (\<lambda>e. Inr (JArr []))
                (Some [(''versionFolder'', JStr ''official'')]) empty_world))
     = (Inr (JArr [JStr ''v0.1.32'', JStr ''v0.1.33'']), empty_world)"
  using invoke_and_log_twice
    [of "\<lambda>m a. Resolve (JArr [JStr ''v0.1.32'', JStr ''v0.1.33''])"
        "''list_downloaded_versions''"
        "Some [(''versionFolder'', JStr ''official'')]"
        "JArr [JStr ''v0.1.32'', JStr ''v0.1.33'']"
        "\<lambda>e. Inr (JArr [])"
        empty_world]
  by (simp add: prod_eq_iff)

subsection \<open>C9: falsy fields\<close>

text \<open>
  Claim C9: for every failure value that is an object with both a \<open>name\<close> and a \<open>message\<close>
  property of which at least one is falsy, \<open>invoke_and_log\<close> treats the failure as
  opaque: no notification is shown, nothing is written to the error log, and exactly one
  exception-log entry is written. The fallback producer's result is returned.
\<close>

theorem invoke_and_log_falsy_field:
  assumes "invoke method args = Reject (JObj kvs)"
    and "map_of kvs ''name'' = Some n"
    and "map_of kvs ''message'' = Some m"
    and "\<not> truthy n \<or> \<not> truthy m"
  shows "invoke_and_log invoke method handle args w =
           (handle (JObj kvs),
            w\<lparr>exception_log := exception_log w @
                [(''Error invoking '' @ method, JObj kvs)]\<rparr>)"
  using assms by (auto simp add: invoke_and_log_def exceptionLog_def)

theorem invoke_and_log_falsy_field_witness:
  "\<not> truthy (JNum (Num False ''0''))
   \<and> invoke_and_log
       (\<lambda>m a. Reject (JObj [(''name'', JStr ''IOError''), (''message'', JNum (Num False ''0''))]))
       ''open_version_folder'' (\<lambda>e. Inr JUndefined) None empty_world
     = (Inr JUndefined,
        \<lparr>toasts = [], error_log = [],
         exception_log =
           [(''Error invoking open_version_folder'',
             JObj [(''name'', JStr ''IOError''), (''message'', JNum (Num False ''0''))])]\<rparr>)"
  using invoke_and_log_falsy_field
    [of "\<lambda>m a. Reject (JObj [(''name'', JStr ''IOError''), (''message'', JNum (Num False ''0''))])"
        "''open_version_folder''"
        None
        "[(''name'', JStr ''IOError''), (''message'', JNum (Num False ''0''))]"
        "JStr ''IOError''"
        "JNum (Num False ''0'')"
        "\<lambda>e. Inr JUndefined"
        empty_world]
  by (simp add: empty_world_def)

subsection \<open>C10: the fallback values\<close>

text \<open>
  Claim C10: every exposed operation passes a constant fallback producer, so for every
  failure value \<open>listDownloadedVersions\<close> returns the empty sequence,
  \<open>downloadOfficialVersion\<close>, \<open>removeVersion\<close> and \<open>ensureActiveVersionStillExists\<close>
  return false, \<open>getActiveVersion\<close> and \<open>getActiveVersionFolder\<close> return null, and
  \<open>openVersionFolder\<close> returns undefined.

  The producers are constant, but for the failure value \<open>null\<close> none of them is reached:
  each of the seven operations ends in a \<open>TypeError\<close> instead of returning its fallback
  value.
\<close>

theorem operations_null_failure:
  "listDownloadedVersions (\<lambda>m a. Reject JNull) folder w = (Inl TypeError, w)
   \<and> downloadOfficialVersion (\<lambda>m a. Reject JNull) version url w = (Inl TypeError, w)
   \<and> getActiveVersion (\<lambda>m a. Reject JNull) w = (Inl TypeError, w)
   \<and> getActiveVersionFolder (\<lambda>m a. Reject JNull) w = (Inl TypeError, w)
   \<and> removeVersion (\<lambda>m a. Reject JNull) version versionFolder w = (Inl TypeError, w)
   \<and> ensureActiveVersionStillExists (\<lambda>m a. Reject JNull) w = (Inl TypeError, w)
   \<and> openVersionFolder (\<lambda>m a. Reject JNull) folder w = (Inl TypeError, w)"
  by (simp add: listDownloadedVersions_def downloadOfficialVersion_def getActiveVersion_def
      getActiveVersionFolder_def removeVersion_def ensureActiveVersionStillExists_def
      openVersionFolder_def invoke_and_log_def)

end
